theory Spec2Isabelle
  imports Main
begin

section \<open>Tier matching (internal/generator/premium.go, internal/models)\<close>

text \<open>
  Prices are \<open>*float64\<close> values that the generator copies and never computes with;
  the type is left abstract.
\<close>

typedecl float64

record Tier =
  Tier :: int
  Tags :: "string list"
  Currency :: string
  PriceReg :: "float64 option"
  PriceRen :: "float64 option"
  PriceRes :: "float64 option"

text \<open>
  \<open>tagSet := make(map[string]bool); for _, tag := range labelTags { tagSet[tag] = true }\<close>.
  A Go map read at a missing key yields \<open>false\<close>.
\<close>

definition tagSet_of :: "string list \<Rightarrow> (string \<Rightarrow> bool)" where
  "tagSet_of labelTags = foldl (\<lambda>m tag. m(tag := True)) (\<lambda>_. False) labelTags"

fun hasMatchingTag :: "string list \<Rightarrow> (string \<Rightarrow> bool) \<Rightarrow> bool" where
  "hasMatchingTag [] labelTagSet = False"
| "hasMatchingTag (tierTag # rest) labelTagSet =
     (if labelTagSet tierTag then True else hasMatchingTag rest labelTagSet)"

text \<open>
  The loop \<open>for i := range tiers\<close> of \<open>findBestTier\<close>. The pointer
  \<open>bestTier = &tiers[i]\<close> is the index \<open>i\<close>; \<open>nil\<close> is \<open>None\<close>.
\<close>

fun findBestTier_loop ::
  "(string \<Rightarrow> bool) \<Rightarrow> Tier list \<Rightarrow> nat \<Rightarrow> nat option \<Rightarrow> int \<Rightarrow> nat option" where
  "findBestTier_loop tagSet [] i bestTier bestTierNum = bestTier"
| "findBestTier_loop tagSet (tier # rest) i bestTier bestTierNum =
     (if hasMatchingTag (Tags tier) tagSet
      then (if Tier tier > bestTierNum
            then findBestTier_loop tagSet rest (Suc i) (Some i) (Tier tier)
            else findBestTier_loop tagSet rest (Suc i) bestTier bestTierNum)
      else findBestTier_loop tagSet rest (Suc i) bestTier bestTierNum)"

definition findBestTier_ptr :: "string list \<Rightarrow> Tier list \<Rightarrow> nat option" where
  "findBestTier_ptr labelTags tiers = findBestTier_loop (tagSet_of labelTags) tiers 0 None (- 1)"

definition findBestTier :: "string list \<Rightarrow> Tier list \<Rightarrow> Tier option" where
  "findBestTier labelTags tiers = map_option (\<lambda>i. tiers ! i) (findBestTier_ptr labelTags tiers)"

text \<open>The matching relation of the specification: the two tag sets intersect.\<close>

definition intersects :: "string list \<Rightarrow> string list \<Rightarrow> bool" where
  "intersects tierTags labelTags = (set tierTags \<inter> set labelTags \<noteq> {})"

text \<open>
  The matching loop of \<open>GeneratePremiumList\<close>, for one label of the map returned by the
  store: the entry appended to \<open>entries\<close>, if any.
\<close>

record PremiumListEntry =
  entry_Label :: string
  entry_Tier :: int
  entry_PriceReg :: "float64 option"
  entry_PriceRen :: "float64 option"
  entry_PriceRes :: "float64 option"
  entry_Currency :: string

definition entry_for :: "Tier list \<Rightarrow> string \<Rightarrow> string list \<Rightarrow> PremiumListEntry option" where
  "entry_for tiers label tags =
     (case findBestTier tags tiers of
        None \<Rightarrow> None
      | Some bestTier \<Rightarrow>
          Some \<lparr> entry_Label = label, entry_Tier = Tier bestTier,
                 entry_PriceReg = PriceReg bestTier, entry_PriceRen = PriceRen bestTier,
                 entry_PriceRes = PriceRes bestTier, entry_Currency = Currency bestTier \<rparr>)"

section \<open>Label validation (internal/importer, ValidateLabel)\<close>

datatype label_error =
    ErrInvalidLabelLength
  | ErrInvalidLabelDash
  | ErrInvalidLabelDoubleDash
  | ErrInvalidLabelIDN
  | ErrLabelContainsInvalidCharacter

definition LabelMinLen :: nat where "LabelMinLen = 1"
definition LabelMaxLen :: nat where "LabelMaxLen = 63"

text \<open>The character class of \<open>validLabelChars = ^[a-z0-9-]+$\<close>.\<close>

definition label_char :: "char \<Rightarrow> bool" where
  "label_char c = (c \<in> set ''abcdefghijklmnopqrstuvwxyz0123456789-'')"

definition validLabelChars :: "string \<Rightarrow> bool" where
  "validLabelChars s = (s \<noteq> [] \<and> list_all label_char s)"

definition HasPrefix :: "string \<Rightarrow> string \<Rightarrow> bool" where
  "HasPrefix s p = (take (length p) s = p)"

definition HasSuffix :: "string \<Rightarrow> string \<Rightarrow> bool" where
  "HasSuffix s p = (length p \<le> length s \<and> drop (length s - length p) s = p)"

text \<open>
  \<open>idna.Registration.ToUnicode\<close> belongs to golang.org/x/net, not to this repository:
  whether it accepts a label is the parameter \<open>idna_ok\<close>.
  \<open>None\<close> is the \<open>nil\<close> error.
\<close>

definition ValidateLabel :: "(string \<Rightarrow> bool) \<Rightarrow> string \<Rightarrow> label_error option" where
  "ValidateLabel idna_ok label =
     (if length label > LabelMaxLen \<or> length label < LabelMinLen then Some ErrInvalidLabelLength
      else if \<not> validLabelChars label then Some ErrLabelContainsInvalidCharacter
      else if HasPrefix label ''-'' \<or> HasSuffix label ''-'' then Some ErrInvalidLabelDash
      else if length label \<ge> 4 \<and> label ! 2 = CHR ''-'' \<and> label ! 3 = CHR ''-''
              \<and> \<not> HasPrefix label ''xn--'' then Some ErrInvalidLabelDoubleDash
      else if HasPrefix label ''xn--'' \<and> \<not> idna_ok label then Some ErrInvalidLabelIDN
      else None)"

text \<open>The condition of the specification, written in its words.\<close>

definition spec_valid_label :: "(string \<Rightarrow> bool) \<Rightarrow> string \<Rightarrow> bool" where
  "spec_valid_label idna_ok L =
     (1 \<le> length L \<and> length L \<le> 63
      \<and> (\<forall>c \<in> set L. c \<in> set ''abcdefghijklmnopqrstuvwxyz0123456789-'')
      \<and> hd L \<noteq> CHR ''-'' \<and> last L \<noteq> CHR ''-''
      \<and> ((3 < length L \<and> L ! 2 = CHR ''-'' \<and> L ! 3 = CHR ''-'') \<longrightarrow> take 4 L = ''xn--'')
      \<and> (take 4 L = ''xn--'' \<longrightarrow> idna_ok L))"

text \<open>The identifiers of the tiers that match a label's tags.\<close>

definition matching_ids :: "string list \<Rightarrow> Tier list \<Rightarrow> int set" where
  "matching_ids labelTags tiers = {Tier t | t. t \<in> set tiers \<and> intersects (Tags t) labelTags}"

text \<open>Tier definitions used in the worked examples below.\<close>

definition tier_usd :: Tier where
  "tier_usd = \<lparr>Tier = 10, Tags = [''vip''], Currency = ''USD'',
                PriceReg = None, PriceRen = None, PriceRes = None\<rparr>"

definition tier_eur :: Tier where
  "tier_eur = \<lparr>Tier = 10, Tags = [''vip''], Currency = ''EUR'',
                PriceReg = None, PriceRen = None, PriceRes = None\<rparr>"

definition tier_neg :: Tier where
  "tier_neg = \<lparr>Tier = - 2, Tags = [''promo''], Currency = ''USD'',
                PriceReg = None, PriceRen = None, PriceRes = None\<rparr>"

section \<open>Strings (package strings, fmt)\<close>

text \<open>
  A Go string is its sequence of bytes, here a \<open>string\<close>. \<open>ToLower\<close>, \<open>ToUpper\<close> and
  \<open>TrimSpace\<close> are the standard library's functions on ASCII text: a byte that is not an
  ASCII letter is left as it is, and white space is tab, line feed, vertical tab, form
  feed, carriage return and space.
\<close>

definition lower_of :: "char \<Rightarrow> char" where
  "lower_of c =
     (case map_of (zip ''ABCDEFGHIJKLMNOPQRSTUVWXYZ'' ''abcdefghijklmnopqrstuvwxyz'') c of
        Some d \<Rightarrow> d
      | None \<Rightarrow> c)"

definition upper_of :: "char \<Rightarrow> char" where
  "upper_of c =
     (case map_of (zip ''abcdefghijklmnopqrstuvwxyz'' ''ABCDEFGHIJKLMNOPQRSTUVWXYZ'') c of
        Some d \<Rightarrow> d
      | None \<Rightarrow> c)"

definition ToLower :: "string \<Rightarrow> string" where
  "ToLower s = map lower_of s"

definition ToUpper :: "string \<Rightarrow> string" where
  "ToUpper s = map upper_of s"

definition is_space :: "char \<Rightarrow> bool" where
  "is_space c = (c \<in> set [CHR 0x09, CHR 0x0A, CHR 0x0B, CHR 0x0C, CHR 0x0D, CHR 0x20])"

definition TrimSpace :: "string \<Rightarrow> string" where
  "TrimSpace s = rev (dropWhile is_space (rev (dropWhile is_space s)))"

text \<open>\<open>strings.Split(s, ",")\<close>: the pieces between the commas, empty ones included.\<close>

fun Split_comma :: "string \<Rightarrow> string list" where
  "Split_comma [] = [[]]"
| "Split_comma (c # cs) =
     (if c = CHR '','' then [] # Split_comma cs
      else (case Split_comma cs of
              [] \<Rightarrow> [[c]]
            | part # parts \<Rightarrow> (c # part) # parts))"

text \<open>The decimal numeral of \<open>%d\<close>, for a number that is not negative.\<close>

fun decimal :: "nat \<Rightarrow> string" where
  "decimal n =
     (if n < 10 then [''0123456789'' ! n]
      else decimal (n div 10) @ [''0123456789'' ! (n mod 10)])"

declare decimal.simps [simp del]

text \<open>internal/tagger: \<open>fmt.Sprintf("len:%d", length)\<close>.\<close>

definition GenerateLengthTag :: "nat \<Rightarrow> string" where
  "GenerateLengthTag len = ''len:'' @ decimal len"

section \<open>The store (internal/db)\<close>

text \<open>
  The three tables of \<open>initSchema\<close>, rows in insertion order, and the two
  \<open>AUTOINCREMENT\<close> counters of SQLite. A label row is \<open>(id, label, length)\<close>, a tag row
  \<open>(id, name)\<close>, a row of \<open>label_tags\<close> is \<open>(label_id, tag_id)\<close>.
\<close>

record store =
  labels_tbl :: "(nat \<times> string \<times> nat) list"
  tags_tbl :: "(nat \<times> string) list"
  label_tags_tbl :: "(nat \<times> nat) list"
  labels_seq :: nat
  tags_seq :: nat

definition empty_store :: store where
  "empty_store = \<lparr>labels_tbl = [], tags_tbl = [], label_tags_tbl = [], labels_seq = 0, tags_seq = 0\<rparr>"

datatype sql_error = ErrTxDone | ErrConstraint | ErrCommit

record LabelData =
  Label :: string
  Length :: nat

record TagAssociation =
  LabelID :: nat
  TagID :: nat

text \<open>
  \<open>INTEGER PRIMARY KEY AUTOINCREMENT\<close>: the new id is one more than the largest id the
  table has ever held.
\<close>

definition next_rowid :: "nat \<Rightarrow> nat list \<Rightarrow> nat" where
  "next_rowid seq ids = Suc (foldl max seq ids)"

definition label_texts :: "store \<Rightarrow> string list" where
  "label_texts s = map (\<lambda>(i, l, n). l) (labels_tbl s)"

definition label_ids :: "store \<Rightarrow> nat list" where
  "label_ids s = map (\<lambda>(i, l, n). i) (labels_tbl s)"

definition tag_names :: "store \<Rightarrow> string list" where
  "tag_names s = map snd (tags_tbl s)"

definition tag_ids :: "store \<Rightarrow> nat list" where
  "tag_ids s = map fst (tags_tbl s)"

text \<open>\<open>SELECT id FROM labels WHERE label = ?\<close> and \<open>SELECT id FROM tags WHERE name = ?\<close>.\<close>

definition select_label_id :: "store \<Rightarrow> string \<Rightarrow> nat option" where
  "select_label_id s label = map_option fst (find (\<lambda>(i, l, n). l = label) (labels_tbl s))"

definition select_tag_id :: "store \<Rightarrow> string \<Rightarrow> nat option" where
  "select_tag_id s name = map_option fst (find (\<lambda>(i, n). n = name) (tags_tbl s))"

text \<open>One row of \<open>INSERT INTO labels (label, length)\<close> and of \<open>INSERT INTO tags (name)\<close>.\<close>

definition insert_label_row :: "store \<Rightarrow> string \<Rightarrow> nat \<Rightarrow> store \<times> nat" where
  "insert_label_row s label len =
     (let rowid = next_rowid (labels_seq s) (label_ids s)
      in (s\<lparr>labels_tbl := labels_tbl s @ [(rowid, label, len)], labels_seq := rowid\<rparr>, rowid))"

definition insert_tag_row :: "store \<Rightarrow> string \<Rightarrow> store \<times> nat" where
  "insert_tag_row s name =
     (let rowid = next_rowid (tags_seq s) (tag_ids s)
      in (s\<lparr>tags_tbl := tags_tbl s @ [(rowid, name)], tags_seq := rowid\<rparr>, rowid))"

text \<open>
  One row of \<open>INSERT OR IGNORE INTO label_tags\<close>: a pair already there is ignored;
  a new pair must refer to a label row and a tag row (the foreign keys).
\<close>

definition insert_or_ignore_label_tag :: "store \<Rightarrow> nat \<Rightarrow> nat \<Rightarrow> sql_error + store" where
  "insert_or_ignore_label_tag s labelID tagID =
     (if (labelID, tagID) \<in> set (label_tags_tbl s) then Inr s
      else if labelID \<notin> set (label_ids s) \<or> tagID \<notin> set (tag_ids s) then Inl ErrConstraint
      else Inr (s\<lparr>label_tags_tbl := label_tags_tbl s @ [(labelID, tagID)]\<rparr>))"

subsection \<open>Operations on the connection (used by the tag command)\<close>

text \<open>
  \<open>InsertLabel\<close>: \<open>INSERT OR IGNORE\<close>, then \<open>LastInsertId\<close>; when the row was ignored
  the id is 0 on a connection that has inserted nothing and the existing row's id is
  fetched.
\<close>

definition InsertLabel :: "store \<Rightarrow> string \<Rightarrow> nat \<Rightarrow> store \<times> nat" where
  "InsertLabel s label len =
     (case select_label_id s label of
        Some rowid \<Rightarrow> (s, rowid)
      | None \<Rightarrow> insert_label_row s label len)"

text \<open>\<open>GetLabelID\<close>: \<open>None\<close> is the error \<open>label not found\<close>.\<close>

definition GetLabelID :: "store \<Rightarrow> string \<Rightarrow> nat option" where
  "GetLabelID s label = select_label_id s label"

definition GetOrCreateTag :: "store \<Rightarrow> string \<Rightarrow> store \<times> nat" where
  "GetOrCreateTag s tagName =
     (case select_tag_id s tagName of
        Some tagID \<Rightarrow> (s, tagID)
      | None \<Rightarrow> insert_tag_row s tagName)"

definition AddTagToLabel :: "store \<Rightarrow> nat \<Rightarrow> nat \<Rightarrow> store \<times> sql_error option" where
  "AddTagToLabel s labelID tagID =
     (case insert_or_ignore_label_tag s labelID tagID of
        Inl e \<Rightarrow> (s, Some e)
      | Inr s' \<Rightarrow> (s', None))"

subsection \<open>Transactions\<close>

text \<open>
  A transaction works on its own copy of the store; \<open>Commit\<close> makes the copy the
  committed store, and a transaction that has been committed (with or without success) is
  done: every later operation on it fails with \<open>ErrTxDone\<close>. Whether a commit fails is
  decided outside the program and is an input of the model.
\<close>

record Tx =
  tx_store :: store
  tx_done :: bool

definition BeginTransaction :: "store \<Rightarrow> Tx" where
  "BeginTransaction committed = \<lparr>tx_store = committed, tx_done = False\<rparr>"

definition Commit :: "bool \<Rightarrow> Tx \<Rightarrow> store \<Rightarrow> Tx \<times> store \<times> sql_error option" where
  "Commit fails txn committed =
     (if tx_done txn then (txn, committed, Some ErrTxDone)
      else if fails then (txn\<lparr>tx_done := True\<rparr>, committed, Some ErrCommit)
      else (txn\<lparr>tx_done := True\<rparr>, tx_store txn, None))"

definition GetOrCreateTagTx :: "Tx \<Rightarrow> string \<Rightarrow> Tx \<times> (sql_error + nat)" where
  "GetOrCreateTagTx txn tagName =
     (if tx_done txn then (txn, Inl ErrTxDone)
      else (case GetOrCreateTag (tx_store txn) tagName of
              (s', tagID) \<Rightarrow> (txn\<lparr>tx_store := s'\<rparr>, Inr tagID)))"

text \<open>\<open>LoadAllLabelIDs\<close>, \<open>LoadAllTagIDs\<close>: \<open>labelMap[label] = id\<close> for every row.\<close>

definition LoadAllLabelIDs :: "store \<Rightarrow> (string \<rightharpoonup> nat)" where
  "LoadAllLabelIDs s = foldl (\<lambda>labelMap (rowid, label, len). labelMap(label \<mapsto> rowid)) Map.empty (labels_tbl s)"

definition LoadAllTagIDs :: "store \<Rightarrow> (string \<rightharpoonup> nat)" where
  "LoadAllTagIDs s = foldl (\<lambda>tagMap (rowid, name). tagMap(name \<mapsto> rowid)) Map.empty (tags_tbl s)"

subsection \<open>BulkInsertLabels\<close>

record BulkInsertResult =
  LabelMap :: "string \<rightharpoonup> nat"
  NewCount :: nat
  ExistingCount :: nat

text \<open>The first loop: labels the pre-loaded map knows, labels seen in this batch, new labels.\<close>

fun separate_labels ::
  "(string \<rightharpoonup> nat) \<Rightarrow> LabelData list \<Rightarrow> BulkInsertResult \<Rightarrow> LabelData list \<Rightarrow> (string \<Rightarrow> bool)
     \<Rightarrow> BulkInsertResult \<times> LabelData list" where
  "separate_labels lmap [] result newLabels seenInBatch = (result, newLabels)"
| "separate_labels lmap (l # rest) result newLabels seenInBatch =
     (case lmap (Label l) of
        Some rowid \<Rightarrow>
          separate_labels lmap rest
            (result\<lparr>LabelMap := (LabelMap result)(Label l \<mapsto> rowid),
                    ExistingCount := ExistingCount result + 1\<rparr>)
            newLabels seenInBatch
      | None \<Rightarrow>
          (if seenInBatch (Label l) then separate_labels lmap rest result newLabels seenInBatch
           else separate_labels lmap rest result (newLabels @ [l]) (seenInBatch(Label l := True))))"

text \<open>
  One statement \<open>INSERT INTO labels (label, length) VALUES (?, ?), ... RETURNING id\<close>:
  the rows in order, the ids in the same order; a label that is already in the table
  violates \<open>UNIQUE\<close> and the whole statement fails, leaving the table as it was.
\<close>

fun insert_labels_returning :: "store \<Rightarrow> LabelData list \<Rightarrow> nat list \<Rightarrow> sql_error + (store \<times> nat list)" where
  "insert_labels_returning s [] ids = Inr (s, ids)"
| "insert_labels_returning s (l # rest) ids =
     (if Label l \<in> set (label_texts s) then Inl ErrConstraint
      else (case insert_label_row s (Label l) (Length l) of
              (s', rowid) \<Rightarrow> insert_labels_returning s' rest (ids @ [rowid])))"

definition maxRowsPerInsert :: nat where
  "maxRowsPerInsert = 999 div 2"

text \<open>\<open>result.LabelMap[chunk[idx].Label] = id\<close> for the returned ids, in order.\<close>

definition record_ids :: "(string \<rightharpoonup> nat) \<Rightarrow> LabelData list \<Rightarrow> nat list \<Rightarrow> (string \<rightharpoonup> nat)" where
  "record_ids labelMap chunk ids = foldl (\<lambda>m (l, rowid). m(Label l \<mapsto> rowid)) labelMap (zip chunk ids)"

text \<open>
  The second loop, over \<open>chunk := newLabels[i:end]\<close> with \<open>i += maxRowsPerInsert\<close>:
  the argument is what is left of \<open>newLabels\<close> from index \<open>i\<close> on.
\<close>

function insert_chunks :: "Tx \<Rightarrow> LabelData list \<Rightarrow> (string \<rightharpoonup> nat) \<Rightarrow> Tx \<times> (sql_error + (string \<rightharpoonup> nat))" where
  "insert_chunks txn newLabels labelMap =
     (if newLabels = [] then (txn, Inr labelMap)
      else if tx_done txn then (txn, Inl ErrTxDone)
      else (case insert_labels_returning (tx_store txn) (take maxRowsPerInsert newLabels) [] of
              Inl e \<Rightarrow> (txn, Inl e)
            | Inr (s', ids) \<Rightarrow>
                insert_chunks (txn\<lparr>tx_store := s'\<rparr>) (drop maxRowsPerInsert newLabels)
                  (record_ids labelMap (take maxRowsPerInsert newLabels) ids)))"
  by pat_completeness auto
termination
  by (relation "measure (\<lambda>(txn, newLabels, labelMap). length newLabels)")
     (auto simp: maxRowsPerInsert_def)

declare insert_chunks.simps [simp del]

definition BulkInsertLabels :: "Tx \<Rightarrow> LabelData list \<Rightarrow> (string \<rightharpoonup> nat) \<Rightarrow> Tx \<times> (sql_error + BulkInsertResult)" where
  "BulkInsertLabels txn labels existing =
     (if labels = [] then (txn, Inr \<lparr>LabelMap = Map.empty, NewCount = 0, ExistingCount = 0\<rparr>)
      else (case separate_labels existing labels
                  \<lparr>LabelMap = Map.empty, NewCount = 0, ExistingCount = 0\<rparr> [] (\<lambda>_. False) of
              (result, newLabels) \<Rightarrow>
                (let result1 = result\<lparr>NewCount := length newLabels\<rparr> in
                 if newLabels = [] then (txn, Inr result1)
                 else (case insert_chunks txn newLabels (LabelMap result1) of
                         (txn', Inl e) \<Rightarrow> (txn', Inl e)
                       | (txn', Inr labelMap) \<Rightarrow> (txn', Inr (result1\<lparr>LabelMap := labelMap\<rparr>))))))"

subsection \<open>BulkAddTagsToLabels\<close>

text \<open>One statement \<open>INSERT OR IGNORE INTO label_tags (label_id, tag_id) VALUES ...\<close>.\<close>

fun insert_or_ignore_label_tags :: "store \<Rightarrow> TagAssociation list \<Rightarrow> sql_error + store" where
  "insert_or_ignore_label_tags s [] = Inr s"
| "insert_or_ignore_label_tags s (assoc # rest) =
     (case insert_or_ignore_label_tag s (LabelID assoc) (TagID assoc) of
        Inl e \<Rightarrow> Inl e
      | Inr s' \<Rightarrow> insert_or_ignore_label_tags s' rest)"

function BulkAddTagsToLabels :: "Tx \<Rightarrow> TagAssociation list \<Rightarrow> Tx \<times> sql_error option" where
  "BulkAddTagsToLabels txn associations =
     (if associations = [] then (txn, None)
      else if tx_done txn then (txn, Some ErrTxDone)
      else (case insert_or_ignore_label_tags (tx_store txn) (take maxRowsPerInsert associations) of
              Inl e \<Rightarrow> (txn, Some e)
            | Inr s' \<Rightarrow> BulkAddTagsToLabels (txn\<lparr>tx_store := s'\<rparr>) (drop maxRowsPerInsert associations)))"
  by pat_completeness auto
termination
  by (relation "measure (\<lambda>(txn, associations). length associations)")
     (auto simp: maxRowsPerInsert_def)

declare BulkAddTagsToLabels.simps [simp del]

subsection \<open>GetAllLabelsWithTags\<close>

text \<open>
  The query: one group per label row; \<open>GROUP_CONCAT(t.name)\<close> joins with commas the names
  of the tags joined to the label, and \<open>COALESCE\<close> turns the \<open>NULL\<close> of a label without
  tags into the empty string.
\<close>

definition joined_tag_names :: "store \<Rightarrow> nat \<Rightarrow> string list" where
  "joined_tag_names s labelID =
     concat (map (\<lambda>(lid, tid). if lid = labelID
                                then map snd (filter (\<lambda>(i, name). i = tid) (tags_tbl s))
                                else [])
                 (label_tags_tbl s))"

fun group_concat :: "string list \<Rightarrow> string" where
  "group_concat [] = []"
| "group_concat [name] = name"
| "group_concat (name # rest) = name @ '','' @ group_concat rest"

definition query_labels_with_tags :: "store \<Rightarrow> (string \<times> string) list" where
  "query_labels_with_tags s = map (\<lambda>(i, label, len). (label, group_concat (joined_tag_names s i))) (labels_tbl s)"

definition splitTags :: "string \<Rightarrow> string list" where
  "splitTags s =
     (if s = [] then []
      else filter (\<lambda>trimmed. trimmed \<noteq> []) (map TrimSpace (Split_comma s)))"

definition GetAllLabelsWithTags :: "store \<Rightarrow> (string \<rightharpoonup> string list)" where
  "GetAllLabelsWithTags s =
     foldl (\<lambda>labels (label, tagsStr).
              labels(label \<mapsto> (if tagsStr \<noteq> [] then filter (\<lambda>tag. tag \<noteq> []) (splitTags tagsStr) else [])))
           Map.empty (query_labels_with_tags s)"

section \<open>CSV import (internal/importer, ImportCSV)\<close>

text \<open>
  The errors \<open>processBatch\<close> and \<open>ImportCSV\<close> return, one constructor per
  \<open>fmt.Errorf\<close> wrapper, and the messages appended to \<open>stats.Errors\<close>.
\<close>

datatype import_error =
    FailedBulkInsertLabels sql_error
  | FailedCreateTag string sql_error
  | FailedCreateFilenameTag string sql_error
  | FailedBulkAddTags sql_error
  | FailedCommitTransaction sql_error
  | FailedCommitFinalTransaction sql_error

datatype import_msg =
    BatchProcessingError import_error
  | ReadErrorAtLine nat string
  | SkippedInvalidLabel nat string label_error

text \<open>
  \<open>StartTime\<close> and \<open>MaxMemoryMB\<close> of \<open>ImportStats\<close> are clock and memory readings
  that no decision depends on; they are left out.
\<close>

record ImportStats =
  Imported :: nat
  NewLabels :: nat
  ExistingLabels :: nat
  Skipped :: nat
  HeaderSkipped :: bool
  Errors :: "import_msg list"

text \<open>
  What \<open>reader.Read()\<close> returns for one line of the file: a parse error or a record.
  The end of the list is \<open>io.EOF\<close>.
\<close>

datatype csv_read = CsvError string | CsvRecord "string list"

definition headerKeywords :: "string list" where
  "headerKeywords =
     [''label'', ''labels'', ''domain'', ''domains'', ''name'', ''names'', ''id'', ''identifier'',
      ''string'', ''strings'', ''sld'', ''second level domain'', ''domain name'']"

definition isHeaderRow :: "string \<Rightarrow> bool" where
  "isHeaderRow firstCol =
     (let firstColLower = ToLower (TrimSpace firstCol) in
      if firstColLower \<in> set headerKeywords then True
      else if firstCol = ToUpper firstCol \<and> length firstCol > 1
           then (if length firstCol > 2 then True else False)
      else False)"

text \<open>
  The parameters and local constants of \<open>ImportCSV\<close>, with the two things decided
  outside the program: the IDNA decoder, and which commit attempts fail
  (\<open>commit_fails k\<close> for the attempt number \<open>k\<close> of the run, counted from 0).
\<close>

record import_env =
  batchSize :: nat
  commitInterval :: nat
  autoTag :: bool
  filenameTag :: string
  idna :: "string \<Rightarrow> bool"
  commit_fails :: "nat \<Rightarrow> bool"

text \<open>
  The variables of \<open>ImportCSV\<close> that \<open>processBatch\<close> and the read loop change.
  \<open>db\<close> is the committed store, \<open>tx\<close> the current transaction, \<open>commits\<close> the
  number of commit attempts so far.
\<close>

record import_state =
  stats :: ImportStats
  lineNum :: nat
  tx :: Tx
  db :: store
  commits :: nat
  existingLabelMap :: "string \<rightharpoonup> nat"
  existingTagMap :: "string \<rightharpoonup> nat"
  tagCache :: "string \<rightharpoonup> nat"
  filenameTagID :: nat
  batch :: "LabelData list"
  labelsProcessed :: nat

definition skip_row :: "import_state \<Rightarrow> import_state" where
  "skip_row st = st\<lparr>stats := (stats st)\<lparr>Skipped := Skipped (stats st) + 1\<rparr>\<rparr>"

definition append_error :: "import_msg \<Rightarrow> import_state \<Rightarrow> import_state" where
  "append_error errorMsg st = st\<lparr>stats := (stats st)\<lparr>Errors := Errors (stats st) @ [errorMsg]\<rparr>\<rparr>"

text \<open>
  The id of the length tag of one label, inside \<open>processBatch\<close>: from \<open>tagCache\<close>,
  else from \<open>existingTagMap\<close>, else created.
\<close>

definition length_tag_id :: "LabelData \<Rightarrow> import_state \<Rightarrow> import_state \<times> (import_error + nat)" where
  "length_tag_id l st =
     (let lengthTag = GenerateLengthTag (Length l) in
      case tagCache st lengthTag of
        Some tagID \<Rightarrow> (st, Inr tagID)
      | None \<Rightarrow>
          (case existingTagMap st lengthTag of
             Some tagIDFromMap \<Rightarrow>
               (st\<lparr>tagCache := (tagCache st)(lengthTag \<mapsto> tagIDFromMap)\<rparr>, Inr tagIDFromMap)
           | None \<Rightarrow>
               (case GetOrCreateTagTx (tx st) lengthTag of
                  (txn, Inl e) \<Rightarrow> (st\<lparr>tx := txn\<rparr>, Inl (FailedCreateTag lengthTag e))
                | (txn, Inr tagID) \<Rightarrow>
                    (st\<lparr>tx := txn,
                        tagCache := (tagCache st)(lengthTag \<mapsto> tagID),
                        existingTagMap := (existingTagMap st)(lengthTag \<mapsto> tagID)\<rparr>,
                     Inr tagID))))"

text \<open>The loop \<open>for _, l := range batch\<close> that prepares the tag associations.\<close>

fun prepare_associations ::
  "import_env \<Rightarrow> (string \<rightharpoonup> nat) \<Rightarrow> LabelData list \<Rightarrow> TagAssociation list \<Rightarrow> import_state
     \<Rightarrow> import_state \<times> (import_error + TagAssociation list)" where
  "prepare_associations env labelMap [] associations st = (st, Inr associations)"
| "prepare_associations env labelMap (l # rest) associations st =
     (case labelMap (Label l) of
        None \<Rightarrow> prepare_associations env labelMap rest associations st
      | Some labelID \<Rightarrow>
          (case (if autoTag env
                 then (case length_tag_id l st of
                         (st1, Inl e) \<Rightarrow> (st1, Inl e)
                       | (st1, Inr tagID) \<Rightarrow>
                           (st1, Inr (associations @ [\<lparr>LabelID = labelID, TagID = tagID\<rparr>])))
                 else (st, Inr associations)) of
             (st1, Inl e) \<Rightarrow> (st1, Inl e)
           | (st1, Inr associations1) \<Rightarrow>
               prepare_associations env labelMap rest
                 (if filenameTag env \<noteq> []
                  then associations1 @ [\<lparr>LabelID = labelID, TagID = filenameTagID st1\<rparr>]
                  else associations1)
                 st1))"

text \<open>
  \<open>processBatch\<close>. The result is the state at the point of return and the error
  returned; on an error the batch is not reset and the counters already added stay.
\<close>

definition processBatch :: "import_env \<Rightarrow> import_state \<Rightarrow> import_state \<times> import_error option" where
  "processBatch env st =
     (if batch st = [] then (st, None)
      else
        (case BulkInsertLabels (tx st) (batch st) (existingLabelMap st) of
           (txn1, Inl e) \<Rightarrow> (st\<lparr>tx := txn1\<rparr>, Some (FailedBulkInsertLabels e))
         | (txn1, Inr insertResult) \<Rightarrow>
             (let st1 = st\<lparr>tx := txn1,
                            existingLabelMap := existingLabelMap st ++ LabelMap insertResult,
                            stats := (stats st)
                              \<lparr>NewLabels := NewLabels (stats st) + NewCount insertResult,
                               ExistingLabels := ExistingLabels (stats st) + ExistingCount insertResult\<rparr>\<rparr>
              in
              case prepare_associations env (LabelMap insertResult) (batch st1) [] st1 of
                (st2, Inl e) \<Rightarrow> (st2, Some e)
              | (st2, Inr associations) \<Rightarrow>
                  (case (if associations \<noteq> [] then BulkAddTagsToLabels (tx st2) associations
                         else (tx st2, None)) of
                     (txn3, Some e) \<Rightarrow> (st2\<lparr>tx := txn3\<rparr>, Some (FailedBulkAddTags e))
                   | (txn3, None) \<Rightarrow>
                       (let st3 = st2\<lparr>tx := txn3,
                                      labelsProcessed := labelsProcessed st2 + length (batch st2),
                                      stats := (stats st2)
                                        \<lparr>Imported := Imported (stats st2) + length (batch st2)\<rparr>\<rparr>
                        in
                        if labelsProcessed st3 \<ge> commitInterval env
                        then (case Commit (commit_fails env (commits st3)) (tx st3) (db st3) of
                                (txn4, db4, Some e) \<Rightarrow>
                                  (st3\<lparr>tx := txn4, db := db4, commits := commits st3 + 1\<rparr>,
                                   Some (FailedCommitTransaction e))
                              | (txn4, db4, None) \<Rightarrow>
                                  (st3\<lparr>tx := BeginTransaction db4, db := db4,
                                       commits := commits st3 + 1,
                                       labelsProcessed := 0, batch := []\<rparr>, None))
                        else (st3\<lparr>batch := []\<rparr>, None))))))"

text \<open>
  A call of \<open>processBatch\<close> from the read loop: an error becomes a message in
  \<open>stats.Errors\<close> and reading goes on.
\<close>

definition run_processBatch :: "import_env \<Rightarrow> import_state \<Rightarrow> import_state" where
  "run_processBatch env st =
     (case processBatch env st of
        (st', Some e) \<Rightarrow> append_error (BatchProcessingError e) st'
      | (st', None) \<Rightarrow> st')"

text \<open>The body of the read loop for one line. Heartbeat output is left out.\<close>

definition process_row :: "import_env \<Rightarrow> csv_read \<Rightarrow> import_state \<Rightarrow> import_state" where
  "process_row env r st =
     (case r of
        CsvError err \<Rightarrow>
          (append_error (ReadErrorAtLine (lineNum st + 1) err) st)\<lparr>lineNum := lineNum st + 1\<rparr>
      | CsvRecord record \<Rightarrow>
          (let st1 = st\<lparr>lineNum := lineNum st + 1\<rparr> in
           case record of
             [] \<Rightarrow> skip_row st1
           | field # others \<Rightarrow>
               (let label = ToLower (TrimSpace field) in
                if label = [] then skip_row st1
                else if \<not> HeaderSkipped (stats st1) \<and> isHeaderRow label
                then skip_row (st1\<lparr>stats := (stats st1)\<lparr>HeaderSkipped := True\<rparr>\<rparr>)
                else (case ValidateLabel (idna env) label of
                        Some err \<Rightarrow>
                          append_error (SkippedInvalidLabel (lineNum st1) label err) (skip_row st1)
                      | None \<Rightarrow>
                          (let st2 = st1\<lparr>batch := batch st1 @ [\<lparr>Label = label, Length = length label\<rparr>]\<rparr>
                           in if length (batch st2) \<ge> batchSize env then run_processBatch env st2
                              else st2)))))"

fun read_loop :: "import_env \<Rightarrow> csv_read list \<Rightarrow> import_state \<Rightarrow> import_state" where
  "read_loop env [] st = run_processBatch env st"
| "read_loop env (r # rs) st = read_loop env rs (process_row env r st)"

text \<open>The loop \<open>for i := 1; i <= 20; i++\<close> that pre-creates the length tags.\<close>

fun precreate_length_tags :: "nat list \<Rightarrow> import_state \<Rightarrow> import_error + import_state" where
  "precreate_length_tags [] st = Inr st"
| "precreate_length_tags (i # rest) st =
     (let lengthTag = GenerateLengthTag i in
      case existingTagMap st lengthTag of
        Some tagID \<Rightarrow>
          precreate_length_tags rest (st\<lparr>tagCache := (tagCache st)(lengthTag \<mapsto> tagID)\<rparr>)
      | None \<Rightarrow>
          (case GetOrCreateTagTx (tx st) lengthTag of
             (txn, Inl e) \<Rightarrow> Inl (FailedCreateTag lengthTag e)
           | (txn, Inr tagID) \<Rightarrow>
               precreate_length_tags rest
                 (st\<lparr>tx := txn,
                     tagCache := (tagCache st)(lengthTag \<mapsto> tagID),
                     existingTagMap := (existingTagMap st)(lengthTag \<mapsto> tagID)\<rparr>)))"

definition resolve_filename_tag :: "import_env \<Rightarrow> import_state \<Rightarrow> import_error + import_state" where
  "resolve_filename_tag env st =
     (if filenameTag env \<noteq> [] then
        (case existingTagMap st (filenameTag env) of
           Some tagID \<Rightarrow> Inr (st\<lparr>filenameTagID := tagID\<rparr>)
         | None \<Rightarrow>
             (case GetOrCreateTagTx (tx st) (filenameTag env) of
                (txn, Inl e) \<Rightarrow> Inl (FailedCreateFilenameTag (filenameTag env) e)
              | (txn, Inr tagID) \<Rightarrow>
                  Inr (st\<lparr>tx := txn, filenameTagID := tagID,
                          existingTagMap := (existingTagMap st)(filenameTag env \<mapsto> tagID)\<rparr>)))
      else Inr st)"

definition initial_state :: "store \<Rightarrow> import_state" where
  "initial_state database =
     (let txn = BeginTransaction database in
      \<lparr>stats = \<lparr>Imported = 0, NewLabels = 0, ExistingLabels = 0, Skipped = 0,
                 HeaderSkipped = False, Errors = []\<rparr>,
       lineNum = 0, tx = txn, db = database, commits = 0,
       existingLabelMap = LoadAllLabelIDs (tx_store txn),
       existingTagMap = LoadAllTagIDs (tx_store txn),
       tagCache = Map.empty, filenameTagID = 0, batch = [], labelsProcessed = 0\<rparr>)"

definition setup_tags :: "import_env \<Rightarrow> import_state \<Rightarrow> import_error + import_state" where
  "setup_tags env st0 =
     (case (if autoTag env then precreate_length_tags [1..<21] st0 else Inr st0) of
        Inl e \<Rightarrow> Inl e
      | Inr st1 \<Rightarrow> resolve_filename_tag env st1)"

text \<open>
  \<open>ImportCSV\<close> on the lines read from the file. The result is the committed store when
  the function returns (the deferred \<open>Rollback\<close> discards what was not committed) and
  what it returns: the error, with \<open>nil\<close> statistics, or the statistics.
\<close>

definition ImportCSV_env :: "import_env \<Rightarrow> store \<Rightarrow> csv_read list \<Rightarrow> store \<times> (import_error + ImportStats)" where
  "ImportCSV_env env database rows =
     (case setup_tags env (initial_state database) of
        Inl e \<Rightarrow> (database, Inl e)
      | Inr st2 \<Rightarrow>
          (let st3 = read_loop env rows st2 in
           if labelsProcessed st3 > 0
           then (case Commit (commit_fails env (commits st3)) (tx st3) (db st3) of
                   (txn, db', Some e) \<Rightarrow> (db', Inl (FailedCommitFinalTransaction e))
                 | (txn, db', None) \<Rightarrow> (db', Inr (stats st3)))
           else (db st3, Inr (stats st3))))"

text \<open>With the constants of the source: \<open>batchSize := 10000\<close>, \<open>commitInterval := 100000\<close>.\<close>

definition ImportCSV ::
  "(string \<Rightarrow> bool) \<Rightarrow> (nat \<Rightarrow> bool) \<Rightarrow> store \<Rightarrow> csv_read list \<Rightarrow> bool \<Rightarrow> string
     \<Rightarrow> store \<times> (import_error + ImportStats)" where
  "ImportCSV idn fails database rows auto_tag filename_tag =
     ImportCSV_env \<lparr>batchSize = 10000, commitInterval = 100000, autoTag = auto_tag,
                    filenameTag = filename_tag, idna = idn, commit_fails = fails\<rparr>
       database rows"

section \<open>The tag command (cmd/premium-list-maker, runTag)\<close>

text \<open>The loop over the tag names; an error ends the command.\<close>

fun add_tags :: "store \<Rightarrow> nat \<Rightarrow> string list \<Rightarrow> store \<times> sql_error option" where
  "add_tags s labelID [] = (s, None)"
| "add_tags s labelID (tagName # rest) =
     (case GetOrCreateTag s tagName of
        (s1, tagID) \<Rightarrow>
          (case AddTagToLabel s1 labelID tagID of
             (s2, Some e) \<Rightarrow> (s2, Some e)
           | (s2, None) \<Rightarrow> add_tags s2 labelID rest))"

definition runTag :: "store \<Rightarrow> string \<Rightarrow> string list \<Rightarrow> store \<times> sql_error option" where
  "runTag s label tags =
     (case GetLabelID s label of
        Some labelID \<Rightarrow> add_tags s labelID tags
      | None \<Rightarrow>
          (case InsertLabel s label (length label) of
             (s1, labelID) \<Rightarrow> add_tags s1 labelID tags))"

section \<open>Properties of tier matching\<close>

lemma tagSet_of_iff: "tagSet_of labelTags t = (t \<in> set labelTags)"
proof -
  have "foldl (\<lambda>m tag. m(tag := True)) m0 xs t = (m0 t \<or> t \<in> set xs)" for m0 xs
    by (induction xs arbitrary: m0) auto
  then show ?thesis by (simp add: tagSet_of_def)
qed

lemma hasMatchingTag_iff: "hasMatchingTag tierTags s = (\<exists>t \<in> set tierTags. s t)"
  by (induction tierTags) auto

lemma hasMatchingTag_intersects:
  "hasMatchingTag tierTags (tagSet_of labelTags) = intersects tierTags labelTags"
  by (auto simp: hasMatchingTag_iff tagSet_of_iff intersects_def)

lemma findBestTier_loop_keep:
  "(\<forall>t \<in> set ts. hasMatchingTag (Tags t) S \<longrightarrow> Tier t \<le> n) \<Longrightarrow> findBestTier_loop S ts i b n = b"
  by (induction ts arbitrary: i) auto

lemma findBestTier_loop_pick:
  "k < length ts \<Longrightarrow> hasMatchingTag (Tags (ts ! k)) S \<Longrightarrow> n < Tier (ts ! k)
   \<Longrightarrow> (\<forall>j < length ts. hasMatchingTag (Tags (ts ! j)) S \<longrightarrow> Tier (ts ! j) \<le> Tier (ts ! k))
   \<Longrightarrow> (\<forall>j < k. hasMatchingTag (Tags (ts ! j)) S \<longrightarrow> Tier (ts ! j) \<noteq> Tier (ts ! k))
   \<Longrightarrow> findBestTier_loop S ts i b n = Some (i + k)"
proof (induction ts arbitrary: i b n k)
  case Nil
  then show ?case by simp
next
  case (Cons t ts)
  show ?case
  proof (cases k)
    case 0
    have "\<forall>u \<in> set ts. hasMatchingTag (Tags u) S \<longrightarrow> Tier u \<le> Tier t"
    proof (intro ballI impI)
      fix u assume "u \<in> set ts" "hasMatchingTag (Tags u) S"
      then obtain j where "j < length ts" "ts ! j = u" by (auto simp: in_set_conv_nth)
      with Cons.prems(4) 0 \<open>hasMatchingTag (Tags u) S\<close> show "Tier u \<le> Tier t"
        by (auto dest!: spec[where x="Suc j"])
    qed
    with Cons.prems 0 show ?thesis by (simp add: findBestTier_loop_keep)
  next
    case (Suc k')
    have a: "k' < length ts" "hasMatchingTag (Tags (ts ! k')) S" using Cons.prems Suc by auto
    have b: "\<forall>j<length ts. hasMatchingTag (Tags (ts ! j)) S \<longrightarrow> Tier (ts ! j) \<le> Tier (ts ! k')"
      using Cons.prems(4) Suc by auto
    have c: "\<forall>j<k'. hasMatchingTag (Tags (ts ! j)) S \<longrightarrow> Tier (ts ! j) \<noteq> Tier (ts ! k')"
      using Cons.prems(5) Suc by auto
    have d: "hasMatchingTag (Tags t) S \<Longrightarrow> Tier t < Tier (ts ! k')"
      using Cons.prems(4)[rule_format, of 0] Cons.prems(5)[rule_format, of 0] Suc by auto
    have e: "n < Tier (ts ! k')" using Cons.prems(3) Suc by simp
    show ?thesis
      using Cons.IH[OF a e b c, of "Suc i"] Cons.IH[OF a d b c, of "Suc i"] Suc
      by auto
  qed
qed

lemma findBestTier_ptr_first_max:
  assumes k: "k < length tiers" and m: "intersects (Tags (tiers ! k)) labelTags"
    and mx: "\<forall>j < length tiers. intersects (Tags (tiers ! j)) labelTags \<longrightarrow> Tier (tiers ! j) \<le> Tier (tiers ! k)"
    and fst: "\<forall>j < k. intersects (Tags (tiers ! j)) labelTags \<longrightarrow> Tier (tiers ! j) \<noteq> Tier (tiers ! k)"
    and nn: "0 \<le> Tier (tiers ! k)"
  shows "findBestTier_ptr labelTags tiers = Some k"
proof -
  have "findBestTier_loop (tagSet_of labelTags) tiers 0 None (- 1) = Some (0 + k)"
    apply (rule findBestTier_loop_pick)
    using assms by (simp_all add: hasMatchingTag_intersects)
  then show ?thesis by (simp add: findBestTier_ptr_def)
qed

lemma matching_ids_nth:
  "i < length tiers \<Longrightarrow> intersects (Tags (tiers ! i)) labelTags \<Longrightarrow> Tier (tiers ! i) \<in> matching_ids labelTags tiers"
  unfolding matching_ids_def using nth_mem by blast

lemma matching_ids_obtain:
  assumes "m \<in> matching_ids labelTags tiers"
  obtains j where "j < length tiers" "intersects (Tags (tiers ! j)) labelTags" "Tier (tiers ! j) = m"
proof -
  from assms obtain t where t: "t \<in> set tiers" "intersects (Tags t) labelTags" "Tier t = m"
    unfolding matching_ids_def by blast
  from t(1) obtain j where "j < length tiers" "tiers ! j = t" unfolding in_set_conv_nth by blast
  with t that show thesis by blast
qed

lemma findBestTier_ptr_max:
  assumes nn: "\<forall>t \<in> set tiers. 0 \<le> Tier t" and ne: "matching_ids labelTags tiers \<noteq> {}"
  shows "\<exists>k < length tiers. findBestTier_ptr labelTags tiers = Some k
           \<and> intersects (Tags (tiers ! k)) labelTags
           \<and> Tier (tiers ! k) = Max (matching_ids labelTags tiers)"
proof -
  let ?P = "\<lambda>j. j < length tiers \<and> intersects (Tags (tiers ! j)) labelTags"
  have fin: "finite (matching_ids labelTags tiers)" unfolding matching_ids_def by simp
  define M where "M = Max (matching_ids labelTags tiers)"
  have "M \<in> matching_ids labelTags tiers" unfolding M_def using fin ne by (rule Max_in)
  then obtain j where j: "?P j \<and> Tier (tiers ! j) = M"
    by (rule matching_ids_obtain) blast
  define k where "k = (LEAST j. ?P j \<and> Tier (tiers ! j) = M)"
  have kP: "?P k \<and> Tier (tiers ! k) = M" unfolding k_def using j by (rule LeastI)
  have kmin: "\<not> (?P i \<and> Tier (tiers ! i) = M)" if "i < k" for i
    using that unfolding k_def by (rule not_less_Least)
  have mx: "\<forall>i < length tiers. intersects (Tags (tiers ! i)) labelTags \<longrightarrow> Tier (tiers ! i) \<le> Tier (tiers ! k)"
  proof (intro allI impI)
    fix i assume "i < length tiers" "intersects (Tags (tiers ! i)) labelTags"
    then have "Tier (tiers ! i) \<in> matching_ids labelTags tiers" by (rule matching_ids_nth)
    then have "Tier (tiers ! i) \<le> M" unfolding M_def using fin by (simp only: Max_ge)
    then show "Tier (tiers ! i) \<le> Tier (tiers ! k)" using kP by simp
  qed
  have fst: "\<forall>i < k. intersects (Tags (tiers ! i)) labelTags \<longrightarrow> Tier (tiers ! i) \<noteq> Tier (tiers ! k)"
  proof (intro allI impI)
    fix i assume i: "i < k" "intersects (Tags (tiers ! i)) labelTags"
    then have "i < length tiers" using kP by simp
    with kmin[OF i(1)] i(2) kP show "Tier (tiers ! i) \<noteq> Tier (tiers ! k)" by simp
  qed
  have "0 \<le> Tier (tiers ! k)" using nn kP nth_mem by blast
  with kP mx fst have "findBestTier_ptr labelTags tiers = Some k"
    by (intro findBestTier_ptr_first_max) simp_all
  with kP show ?thesis unfolding M_def by blast
qed

lemma findBestTier_none_nonneg:
  assumes "\<forall>t \<in> set tiers. 0 \<le> Tier t"
  shows "findBestTier labelTags tiers = None \<longleftrightarrow> matching_ids labelTags tiers = {}"
proof (cases "matching_ids labelTags tiers = {}")
  case True
  have "\<forall>t \<in> set tiers. hasMatchingTag (Tags t) (tagSet_of labelTags) \<longrightarrow> Tier t \<le> - 1"
  proof (intro ballI impI)
    fix t assume "t \<in> set tiers" "hasMatchingTag (Tags t) (tagSet_of labelTags)"
    then have "Tier t \<in> matching_ids labelTags tiers"
      unfolding matching_ids_def hasMatchingTag_intersects by blast
    with True show "Tier t \<le> - 1" by simp
  qed
  then have "findBestTier_loop (tagSet_of labelTags) tiers 0 None (- 1) = None"
    by (rule findBestTier_loop_keep)
  then show ?thesis using True by (simp add: findBestTier_def findBestTier_ptr_def)
next
  case False
  from findBestTier_ptr_max[OF assms False] obtain k where
    "findBestTier_ptr labelTags tiers = Some k" by blast
  then show ?thesis using False by (simp add: findBestTier_def)
qed

lemma findBestTier_some_nonneg:
  assumes nn: "\<forall>t \<in> set tiers. 0 \<le> Tier t" and s: "findBestTier labelTags tiers = Some t"
  shows "t \<in> set tiers \<and> intersects (Tags t) labelTags
         \<and> Tier t = Max (matching_ids labelTags tiers)"
proof -
  have ne: "matching_ids labelTags tiers \<noteq> {}"
    using findBestTier_none_nonneg[OF nn, of labelTags] s by simp
  from findBestTier_ptr_max[OF nn ne] obtain k where k: "k < length tiers"
    "findBestTier_ptr labelTags tiers = Some k" "intersects (Tags (tiers ! k)) labelTags"
    "Tier (tiers ! k) = Max (matching_ids labelTags tiers)" by blast
  from k(2) s have "t = tiers ! k" by (simp add: findBestTier_def)
  with k show ?thesis by simp
qed

subsection \<open>Claims about tier resolution\<close>

text \<open>
  Claim C1. The claim: every label is assigned the tier whose identifier is the maximum of the
  identifiers of the matching tiers, and is omitted only when no tier matches. The loop
  starts from \<open>bestTierNum := -1\<close> and replaces the best tier only by one with a
  strictly greater identifier, so a matching tier whose identifier is negative is never
  selected: with the single tier \<open>{tier: -2, tags: [promo]}\<close> and the label tags
  \<open>[promo]\<close> the set of matching identifiers is \<open>{-2}\<close>, yet
  \<open>findBestTier\<close> returns \<open>nil\<close> and the label gets no entry. (For tier sets
  without negative identifiers the claim holds: lemmas \<open>findBestTier_none_nonneg\<close>
  and \<open>findBestTier_some_nonneg\<close>.)
\<close>

theorem findBestTier_negative_tier_unselected:
  "intersects (Tags tier_neg) [''promo''] \<and> matching_ids [''promo''] [tier_neg] = {- 2}
   \<and> findBestTier [''promo''] [tier_neg] = None
   \<and> entry_for [tier_neg] ''sale'' [''promo''] = None"
  by (simp add: intersects_def matching_ids_def entry_for_def findBestTier_def findBestTier_ptr_def tagSet_of_def tier_neg_def)

text \<open>
  Claim C4, as stated: among matching tiers that share the greatest identifier the last one
  met during iteration is selected. The comparison \<open>tier.Tier > bestTierNum\<close> is
  strict, so the first one stays: of two tiers with identifier 10 and tag \<open>vip\<close>, the
  first (USD) is selected, not the last (EUR).
\<close>

theorem findBestTier_tie_counterexample:
  "intersects (Tags tier_usd) [''vip''] \<and> intersects (Tags tier_eur) [''vip'']
   \<and> Tier tier_usd = Tier tier_eur
   \<and> findBestTier_ptr [''vip''] [tier_usd, tier_eur] = Some 0
   \<and> findBestTier [''vip''] [tier_usd, tier_eur] = Some tier_usd
   \<and> findBestTier [''vip''] [tier_usd, tier_eur] \<noteq> Some (last [tier_usd, tier_eur])"
  by (simp add: intersects_def findBestTier_def findBestTier_ptr_def tagSet_of_def tier_usd_def tier_eur_def)

text \<open>
  Claim C4, amended: when two or more matching tiers share the greatest identifier among the
  matching tiers, and that identifier is not negative, the tier selected is the first such
  tier in iteration order (index \<open>k\<close>, with no earlier matching tier of the same
  identifier).
\<close>

theorem findBestTier_tie_first:
  assumes "k < j" and "j < length tiers"
    and "intersects (Tags (tiers ! k)) labelTags" and "intersects (Tags (tiers ! j)) labelTags"
    and "Tier (tiers ! j) = Tier (tiers ! k)"
    and "\<forall>i < length tiers. intersects (Tags (tiers ! i)) labelTags \<longrightarrow> Tier (tiers ! i) \<le> Tier (tiers ! k)"
    and "\<forall>i < k. intersects (Tags (tiers ! i)) labelTags \<longrightarrow> Tier (tiers ! i) \<noteq> Tier (tiers ! k)"
    and "0 \<le> Tier (tiers ! k)"
  shows "findBestTier_ptr labelTags tiers = Some k \<and> findBestTier labelTags tiers = Some (tiers ! k)"
proof -
  have "k < length tiers" using assms(1,2) by simp
  then have "findBestTier_ptr labelTags tiers = Some k"
    using assms(3,6,7,8) by (rule findBestTier_ptr_first_max)
  then show ?thesis by (simp add: findBestTier_def)
qed

theorem findBestTier_tie_first_witness:
  "findBestTier_ptr [''vip''] [tier_usd, tier_eur] = Some 0
   \<and> findBestTier [''vip''] [tier_usd, tier_eur] = Some ([tier_usd, tier_eur] ! 0)"
proof -
  have 1: "(0::nat) < 1" and 2: "1 < length [tier_usd, tier_eur]" by simp_all
  have 3: "intersects (Tags ([tier_usd, tier_eur] ! 0)) [''vip'']"
    and 4: "intersects (Tags ([tier_usd, tier_eur] ! 1)) [''vip'']"
    by (simp_all add: intersects_def tier_usd_def tier_eur_def)
  have 5: "Tier ([tier_usd, tier_eur] ! 1) = Tier ([tier_usd, tier_eur] ! 0)"
    by (simp add: tier_usd_def tier_eur_def)
  have 6: "\<forall>i < length [tier_usd, tier_eur]. intersects (Tags ([tier_usd, tier_eur] ! i)) [''vip'']
            \<longrightarrow> Tier ([tier_usd, tier_eur] ! i) \<le> Tier ([tier_usd, tier_eur] ! 0)"
    by (simp add: tier_usd_def tier_eur_def less_Suc_eq)
  have 7: "\<forall>i < (0::nat). intersects (Tags ([tier_usd, tier_eur] ! i)) [''vip'']
            \<longrightarrow> Tier ([tier_usd, tier_eur] ! i) \<noteq> Tier ([tier_usd, tier_eur] ! 0)"
    by simp
  have 8: "0 \<le> Tier ([tier_usd, tier_eur] ! 0)" by (simp add: tier_usd_def)
  show ?thesis by (rule findBestTier_tie_first[OF 1 2 3 4 5 6 7 8])
qed

section \<open>Properties of label validation\<close>

lemma HasPrefix_dash: "HasPrefix s ''-'' = (s \<noteq> [] \<and> hd s = CHR ''-'')"
  by (cases s) (auto simp: HasPrefix_def)
lemma HasSuffix_dash: "HasSuffix s ''-'' = (s \<noteq> [] \<and> last s = CHR ''-'')"
proof (cases s rule: rev_cases)
  case Nil then show ?thesis by (simp add: HasSuffix_def)
next
  case (snoc ys y) then show ?thesis by (auto simp: HasSuffix_def)
qed

lemma validLabelChars_iff:
  "validLabelChars s = (s \<noteq> [] \<and> (\<forall>c \<in> set s. c \<in> set ''abcdefghijklmnopqrstuvwxyz0123456789-''))"
  unfolding validLabelChars_def list_all_iff label_char_def by (rule refl)

lemma HasPrefix_xn: "HasPrefix s ''xn--'' = (take 4 s = ''xn--'')"
proof -
  have "length ''xn--'' = (4::nat)" by simp
  then show ?thesis by (simp only: HasPrefix_def)
qed

text \<open>
  Claim C2. \<open>ValidateLabel\<close> returns no error exactly when the label has 1 to 63
  characters, all of them in \<open>[a-z0-9-]\<close>, neither starts nor ends with a hyphen,
  has hyphens at both positions 3 and 4 only if it starts with \<open>xn--\<close>, and, when it
  starts with \<open>xn--\<close>, is accepted by the IDNA decoder.
\<close>

theorem ValidateLabel_ok_iff: "ValidateLabel idna_ok L = None \<longleftrightarrow> spec_valid_label idna_ok L"
proof -
  define A where "A = (\<forall>c \<in> set L. c \<in> set ''abcdefghijklmnopqrstuvwxyz0123456789-'')"
  define X where "X = (take 4 L = ''xn--'')"
  have v: "validLabelChars L = (L \<noteq> [] \<and> A)" by (simp only: validLabelChars_iff A_def)
  have s: "spec_valid_label idna_ok L =
     (1 \<le> length L \<and> length L \<le> 63 \<and> A
      \<and> hd L \<noteq> CHR ''-'' \<and> last L \<noteq> CHR ''-''
      \<and> ((3 < length L \<and> L ! 2 = CHR ''-'' \<and> L ! 3 = CHR ''-'') \<longrightarrow> X)
      \<and> (X \<longrightarrow> idna_ok L))"
    by (simp only: spec_valid_label_def A_def X_def)
  have e: "(1 \<le> length L) = (L \<noteq> [])" by (cases L) auto
  show ?thesis
    unfolding s ValidateLabel_def v HasPrefix_xn X_def[symmetric] HasPrefix_dash HasSuffix_dash
      LabelMinLen_def LabelMaxLen_def
    by (cases "L = []") (auto simp: Suc_le_eq)
qed

theorem ValidateLabel_ok_iff_witness: "spec_valid_label (\<lambda>_. True) ''xn--d1acufc'' \<and> ValidateLabel (\<lambda>_. True) ''xn--d1acufc'' = None"
  using ValidateLabel_ok_iff[of "\<lambda>_. True" "''xn--d1acufc''"]
  by (simp add: ValidateLabel_def validLabelChars_def label_char_def
    LabelMinLen_def LabelMaxLen_def HasPrefix_def HasSuffix_def)

end
